theory Spec2Isabelle
  imports Main
begin

section \<open>Host values and wire data\<close>

text \<open>
  A JavaScript value as the provider package handles it: what \<open>JSON.parse\<close> and
  \<open>msgpack.unpack\<close> return and what callers pass as configuration, state and
  private data. An object is its list of own properties in key order. No claim
  depends on arithmetic, so a number carries an integer.
\<close>

datatype jsval =
    JUndefined
  | JNull
  | JBool bool
  | JNum int
  | JStr string
  | JArr "jsval list"
  | JObj "(string \<times> jsval) list"

text \<open>A field typed \<open>T | null | undefined\<close>.\<close>

datatype 'a nullable = Undefined | Null | Value 'a

text \<open>A \<open>Uint8Array\<close>: one \<open>char\<close> of HOL is one byte.\<close>

type_synonym bytes = "char list"

text \<open>
  \<open>obj[key] = v\<close> on an object kept as a property list: an existing key keeps its
  place, a new key goes last. \<open>obj[key]\<close> reads the property, \<open>None\<close> for
  \<open>undefined\<close>. The keys are the names a schema or a caller uses: the order is
  the order of insertion (as for every key that is not an array index), and a read
  finds own properties only (no key is a name that objects inherit, such as
  \<open>constructor\<close>).
\<close>

fun obj_set :: "(string \<times> 'a) list \<Rightarrow> string \<Rightarrow> 'a \<Rightarrow> (string \<times> 'a) list" where
  "obj_set [] k v = [(k, v)]"
| "obj_set ((k', v') # kvs) k v =
     (if k' = k then (k, v) # kvs else (k', v') # obj_set kvs k v)"

definition obj_get :: "(string \<times> 'a) list \<Rightarrow> string \<Rightarrow> 'a option" where
  "obj_get kvs k = map_of kvs k"

definition keys :: "(string \<times> 'a) list \<Rightarrow> string list" where
  "keys kvs = map fst kvs"

section \<open>Schema type system\<close>

text \<open>
  Modelled from the spec: the type nodes of \<open>type-system.ts\<close>, which is not among
  the sources. \<open>T.boolean()\<close>, \<open>T.number()\<close>, \<open>T.string()\<close>, \<open>T.array(t)\<close>,
  \<open>T.map(t)\<close>, \<open>T.object(props)\<close> and \<open>T.optional(t)\<close> build the nodes below
  (section 3 of the spec: primitive, array, map, object, optional).
\<close>

datatype SchemaType =
    BooleanType
  | NumberType
  | StringType
  | ArrayType SchemaType
  | MapType SchemaType
  | ObjectType "(string \<times> SchemaType) list"
  | OptionalType SchemaType

section \<open>Wire type descriptors\<close>

text \<open>
  \<open>CtyTypeSchema\<close> of the source:
  \<open>'any' | 'bool' | 'number' | 'string' | ['list', C] | ['map', C] | ['object', {[key]: C}] | ['set', C]\<close>.
  \<open>CtyAtom s\<close> is the string \<open>s\<close>, \<open>CtyTagged tag d\<close> the pair \<open>[tag, d]\<close> whose
  payload is a descriptor, and \<open>CtyObject fields\<close> the pair \<open>['object', fields]\<close>
  whose payload is a mapping (the tag \<open>object\<close> always comes with a mapping, so it
  is not written as \<open>CtyTagged\<close>). Atoms and tags are open strings, so that the
  descriptors the source rejects can be written down.
\<close>

datatype CtyTypeSchema =
    CtyAtom string
  | CtyTagged string CtyTypeSchema
  | CtyObject "(string \<times> CtyTypeSchema) list"

datatype Severity = SEVERITY_INVALID | ERROR | WARNING

record Diagnostic =
  severity :: Severity
  summary :: string
  detail :: string

text \<open>
  What the source throws. \<open>Error msg\<close> is \<open>new Error(msg)\<close>; \<open>UnknownType d\<close> is
  \<open>new Error(`Unknown type: ${inspect(d)}`)\<close>; \<open>TypeError msg\<close> is
  \<open>new TypeError(msg)\<close>; \<open>SyntaxError\<close> is what \<open>JSON.parse\<close> throws;
  \<open>DiagnosticError ds\<close> is what \<open>throwDiagnosticErrors\<close> throws;
  \<open>ValidationError\<close> is what \<open>validateOrThrow\<close> throws; \<open>TransportError\<close> is a
  rejected RPC call.
\<close>

datatype error =
    Error string
  | UnknownType CtyTypeSchema
  | TypeError string
  | SyntaxError string
  | DiagnosticError "Diagnostic list"
  | ValidationError string
  | TransportError string

text \<open>
  The libraries and the absent module the code calls, as parameters:
  \<open>msgpack.pack\<close> and \<open>msgpack.unpack\<close>; \<open>JSON.stringify\<close> (\<open>None\<close> is its
  \<open>undefined\<close> result) and \<open>JSON.parse\<close>; \<open>JSON_parse_cty\<close> is
  \<open>JSON.parse(text) as CtyTypeSchema\<close>; \<open>encoder.encode\<close> (whose argument may be
  \<open>undefined\<close>) and \<open>decoder.decode\<close> (whose argument may be absent);
  \<open>validateOrThrow\<close> of \<open>type-system.ts\<close>, \<open>Some e\<close> when it throws \<open>e\<close>.
\<close>

record externals =
  msgpack_pack :: "jsval \<Rightarrow> bytes"
  msgpack_unpack :: "bytes \<Rightarrow> error + jsval"
  JSON_stringify :: "jsval \<Rightarrow> string option"
  JSON_parse :: "string \<Rightarrow> error + jsval"
  JSON_parse_cty :: "string \<Rightarrow> error + CtyTypeSchema"
  encoder_encode :: "string option \<Rightarrow> bytes"
  decoder_decode :: "bytes nullable \<Rightarrow> error + string"
  validateOrThrow :: "SchemaType \<Rightarrow> jsval \<Rightarrow> error option"

text \<open>
  \<open>ctyToType\<close>: the outer \<open>switch\<close> on the atom, then the inner \<open>switch\<close> on the
  tag \<open>schema[0]\<close>. An atom outside the four has a character at index 0, which is
  none of the tags, and so reaches the inner \<open>default\<close>. \<open>ctyFields\<close> is the
  \<open>reduce\<close> over the keys of an object descriptor, the accumulator \<open>types\<close>
  starting empty; a field that fails to decode ends it.
\<close>

fun ctyToType :: "CtyTypeSchema \<Rightarrow> error + SchemaType"
  and ctyFields :: "(string \<times> CtyTypeSchema) list \<Rightarrow> (string \<times> SchemaType) list
                    \<Rightarrow> error + (string \<times> SchemaType) list" where
  "ctyToType (CtyAtom s) =
     (if s = ''any'' then Inl (Error ''unknown type'')
      else if s = ''bool'' then Inr BooleanType
      else if s = ''number'' then Inr NumberType
      else if s = ''string'' then Inr StringType
      else Inl (UnknownType (CtyAtom s)))"
| "ctyToType (CtyTagged tag d) =
     (if tag = ''list'' then
        (case ctyToType d of Inl e \<Rightarrow> Inl e | Inr t \<Rightarrow> Inr (ArrayType t))
      else if tag = ''map'' then
        (case ctyToType d of Inl e \<Rightarrow> Inl e | Inr t \<Rightarrow> Inr (MapType t))
      else if tag = ''set'' then
        (case ctyToType d of Inl e \<Rightarrow> Inl e | Inr t \<Rightarrow> Inr (ArrayType t))
      else Inl (UnknownType (CtyTagged tag d)))"
| "ctyToType (CtyObject props) =
     (case ctyFields props [] of Inl e \<Rightarrow> Inl e | Inr innerTypes \<Rightarrow> Inr (ObjectType innerTypes))"
| "ctyFields [] types = Inr types"
| "ctyFields ((key, d) # rest) types =
     (case ctyToType d of
        Inl e \<Rightarrow> Inl e
      | Inr t \<Rightarrow> ctyFields rest (obj_set types key t))"

definition decodeCtyType :: "externals \<Rightarrow> bytes \<Rightarrow> error + SchemaType" where
  "decodeCtyType lib input =
     (case decoder_decode lib (Value input) of
        Inl e \<Rightarrow> Inl e
      | Inr txt \<Rightarrow>
          (case JSON_parse_cty lib txt of
             Inl e \<Rightarrow> Inl e
           | Inr typeMeta \<Rightarrow> ctyToType typeMeta))"

section \<open>Block schemas\<close>

datatype Kind = ARGS | ATTRS

datatype NestingMode = INVALID | SINGLE | LIST | SET | MAP | GROUP

text \<open>
  \<open>tfplugin5.Schema.IAttribute\<close>: \<open>name\<close> and \<open>type\<close> may be absent (\<open>None\<close>);
  the three flags are only tested for truth, so an absent flag is \<open>False\<close>.
\<close>

record Attribute =
  name :: "string option"
  type :: "bytes option"
  required :: bool
  optional :: bool
  computed :: bool

text \<open>
  \<open>tfplugin5.Schema.IBlock\<close> and \<open>INestedBlock\<close>; every field may be absent, and
  \<open>minItems\<close> and \<open>maxItems\<close> are numbers.
\<close>

datatype Block =
  Block (attributes: "Attribute list option") (blockTypes: "NestedBlock list option")
and NestedBlock =
  NestedBlock (typeName: "string option") (block: "Block option")
    (nesting: "NestingMode option") (minItems: "int option") (maxItems: "int option")

text \<open>
  One pass of the loop over \<open>block.attributes\<close>: the two checks, the decoded type
  stored under the attribute's name, and the optional marker put around it by kind
  (\<open>T.optional(attrs[attribute.name])\<close> reads back the type just stored).
\<close>

definition markOptional :: "Kind \<Rightarrow> Attribute \<Rightarrow> bool" where
  "markOptional kind attribute =
     (if kind = ATTRS then \<not> required attribute \<and> \<not> computed attribute
      else optional attribute \<or> computed attribute)"

definition attributeStep :: "externals \<Rightarrow> Kind \<Rightarrow> Attribute \<Rightarrow> (string \<times> SchemaType) list
    \<Rightarrow> error + (string \<times> SchemaType) list" where
  "attributeStep lib kind attribute attrs =
     (case type attribute of
        None \<Rightarrow> Inl (Error ''Unable to read attribute type'')
      | Some ty \<Rightarrow>
          (case name attribute of
             None \<Rightarrow> Inl (Error ''Unable to read attribute name'')
           | Some n \<Rightarrow>
               (case decodeCtyType lib ty of
                  Inl e \<Rightarrow> Inl e
                | Inr t \<Rightarrow>
                    (if markOptional kind attribute
                     then Inr (obj_set (obj_set attrs n t) n (OptionalType t))
                     else Inr (obj_set attrs n t)))))"

fun attributesLoop :: "externals \<Rightarrow> Kind \<Rightarrow> Attribute list \<Rightarrow> (string \<times> SchemaType) list
    \<Rightarrow> error + (string \<times> SchemaType) list" where
  "attributesLoop lib kind [] attrs = Inr attrs"
| "attributesLoop lib kind (attribute # rest) attrs =
     (case attributeStep lib kind attribute attrs of
        Inl e \<Rightarrow> Inl e
      | Inr attrs' \<Rightarrow> attributesLoop lib kind rest attrs')"

text \<open>The \<open>switch\<close> of \<open>nestedBlockToSchemaType\<close> on the nesting mode.\<close>

definition wrapNesting :: "NestingMode option \<Rightarrow> int option \<Rightarrow> SchemaType \<Rightarrow> error + SchemaType" where
  "wrapNesting mode maxI innerSchema =
     (case mode of
        None \<Rightarrow> Inl (Error ''Invalid nesting mode'')
      | Some INVALID \<Rightarrow> Inl (Error ''Invalid nesting mode'')
      | Some SINGLE \<Rightarrow> Inr innerSchema
      | Some LIST \<Rightarrow> Inr (if maxI = Some 1 then innerSchema else ArrayType innerSchema)
      | Some SET \<Rightarrow> Inr (if maxI = Some 1 then innerSchema else ArrayType innerSchema)
      | Some MAP \<Rightarrow> Inr (MapType innerSchema)
      | Some GROUP \<Rightarrow> Inr innerSchema)"

text \<open>
  The condition under which a nested block's property is stored without the optional
  marker: \<open>minItems != null && minItems > 0 && nesting !== GROUP\<close>.
\<close>

definition blockRequired :: "NestedBlock \<Rightarrow> bool" where
  "blockRequired nestedBlock =
     (case minItems nestedBlock of
        None \<Rightarrow> False
      | Some m \<Rightarrow> m > 0 \<and> nesting nestedBlock \<noteq> Some GROUP)"

function (sequential) blockToSchemaType :: "externals \<Rightarrow> Block \<Rightarrow> Kind \<Rightarrow> error + SchemaType"
  and nestedBlockToSchemaType :: "externals \<Rightarrow> NestedBlock \<Rightarrow> Kind \<Rightarrow> error + SchemaType"
  and blocksLoop :: "externals \<Rightarrow> Kind \<Rightarrow> NestedBlock list \<Rightarrow> (string \<times> SchemaType) list
        \<Rightarrow> error + (string \<times> SchemaType) list" where
  "blockToSchemaType lib (Block as bs) kind =
     (case attributesLoop lib kind (case as of None \<Rightarrow> [] | Some l \<Rightarrow> l) [] of
        Inl e \<Rightarrow> Inl e
      | Inr attrs \<Rightarrow>
          (if kind = ARGS then
             (case blocksLoop lib kind (case bs of None \<Rightarrow> [] | Some l \<Rightarrow> l) attrs of
                Inl e \<Rightarrow> Inl e
              | Inr attrs' \<Rightarrow> Inr (ObjectType attrs'))
           else Inr (ObjectType attrs)))"
| "nestedBlockToSchemaType lib (NestedBlock tn b mode minI maxI) kind =
     (case b of
        None \<Rightarrow> Inl (Error ''Unable to read nested block schema'')
      | Some blk \<Rightarrow>
          (case blockToSchemaType lib blk kind of
             Inl e \<Rightarrow> Inl e
           | Inr innerSchema \<Rightarrow> wrapNesting mode maxI innerSchema))"
| "blocksLoop lib kind [] attrs = Inr attrs"
| "blocksLoop lib kind (nestedBlock # rest) attrs =
     (case typeName nestedBlock of
        None \<Rightarrow> Inl (Error ''Unable to read nested block name'')
      | Some n \<Rightarrow>
          (case nestedBlockToSchemaType lib nestedBlock kind of
             Inl e \<Rightarrow> Inl e
           | Inr t \<Rightarrow>
               blocksLoop lib kind rest
                 (obj_set attrs n (if blockRequired nestedBlock then t else OptionalType t))))"
  by pat_completeness auto
termination
  by (relation "measure (\<lambda>x. case x of
          Inl (lib, b, k) \<Rightarrow> 2 * size b + 1
        | Inr (Inl (lib, nb, k)) \<Rightarrow> 2 * size nb
        | Inr (Inr (lib, k, nbs, acc)) \<Rightarrow> 2 * size_list size nbs + 1)")
     (auto split: option.splits)

text \<open>
  \<open>tfplugin5.ISchema\<close>: \<open>schema.block\<close> may be absent. (The field is named
  \<open>schema_block\<close> here, \<open>block\<close> being the nested block's field.)
\<close>

datatype Schema = Schema (schema_block: "Block option")

definition tfSchemaToSchemaType :: "externals \<Rightarrow> Schema \<Rightarrow> Kind \<Rightarrow> error + SchemaType" where
  "tfSchemaToSchemaType lib schema kind =
     (case schema_block schema of
        None \<Rightarrow> Inl (TypeError ''Could not read schema'')
      | Some b \<Rightarrow> blockToSchemaType lib b kind)"

text \<open>
  The loop of \<open>tfSchemasRecordToSchemaTypeRecord\<close> over \<open>Object.entries(schemas)\<close>,
  \<open>acc\<close> being the record \<open>map\<close> it fills.
\<close>

fun schemasLoop :: "externals \<Rightarrow> Kind \<Rightarrow> (string \<times> Schema) list \<Rightarrow> (string \<times> SchemaType) list
    \<Rightarrow> error + (string \<times> SchemaType) list" where
  "schemasLoop lib kind [] acc = Inr acc"
| "schemasLoop lib kind ((n, schema) # rest) acc =
     (case tfSchemaToSchemaType lib schema kind of
        Inl e \<Rightarrow> Inl e
      | Inr t \<Rightarrow> schemasLoop lib kind rest (obj_set acc n t))"

definition tfSchemasRecordToSchemaTypeRecord ::
    "externals \<Rightarrow> (string \<times> Schema) list \<Rightarrow> Kind \<Rightarrow> error + (string \<times> SchemaType) list" where
  "tfSchemasRecordToSchemaTypeRecord lib schemas kind = schemasLoop lib kind schemas []"

section \<open>Dynamic value codec\<close>

text \<open>
  \<open>tfplugin5.IDynamicValue\<close> and \<open>tfplugin5.IRawState\<close>, with the one field of
  each that this code reads and writes.
\<close>

record DynamicValue =
  msgpack :: "bytes nullable"

record RawState =
  json :: "bytes nullable"

definition toDynamic :: "externals \<Rightarrow> jsval \<Rightarrow> DynamicValue" where
  "toDynamic lib v = \<lparr>msgpack = Value (msgpack_pack lib v)\<rparr>"

text \<open>
  \<open>!value\<close> holds of \<open>null\<close> and \<open>undefined\<close> only, a message being an object;
  \<open>!value.msgpack\<close> likewise, a byte array being an object even when it is empty.
\<close>

fun fromDynamic :: "externals \<Rightarrow> DynamicValue nullable \<Rightarrow> error + jsval" where
  "fromDynamic lib Undefined = Inr JUndefined"
| "fromDynamic lib Null = Inr JNull"
| "fromDynamic lib (Value v) =
     (case msgpack v of
        Undefined \<Rightarrow> Inr JUndefined
      | Null \<Rightarrow> Inr JNull
      | Value packed \<Rightarrow> msgpack_unpack lib packed)"

definition toRawState :: "externals \<Rightarrow> jsval \<Rightarrow> RawState" where
  "toRawState lib v = \<lparr>json = Value (encoder_encode lib (JSON_stringify lib v))\<rparr>"


text \<open>\<open>a ?? b\<close>, and the property read \<open>value[key]\<close> of an object.\<close>

definition nullish :: "jsval \<Rightarrow> bool" where
  "nullish v = (v = JUndefined \<or> v = JNull)"

definition coalesce :: "jsval \<Rightarrow> jsval \<Rightarrow> jsval" where
  "coalesce a b = (if nullish a then b else a)"

definition js_read :: "(string \<times> jsval) list \<Rightarrow> string \<Rightarrow> jsval" where
  "js_read obj k = (case obj_get obj k of None \<Rightarrow> JUndefined | Some v \<Rightarrow> v)"

text \<open>JavaScript's truth of a value, as \<open>if (!state)\<close> tests it.\<close>

fun truthy :: "jsval \<Rightarrow> bool" where
  "truthy JUndefined = False"
| "truthy JNull = False"
| "truthy (JBool b) = b"
| "truthy (JNum n) = (n \<noteq> 0)"
| "truthy (JStr s) = (s \<noteq> [])"
| "truthy (JArr xs) = True"
| "truthy (JObj kvs) = True"

text \<open>
  \<open>schema.properties\<close> of an \<open>ObjectType\<close>; the parameter's type admits object
  types only.
\<close>

fun properties :: "SchemaType \<Rightarrow> (string \<times> SchemaType) list" where
  "properties (ObjectType props) = props"
| "properties t = []"

definition optionalsToNulls :: "(string \<times> jsval) list \<Rightarrow> SchemaType \<Rightarrow> (string \<times> jsval) list" where
  "optionalsToNulls v schema =
     foldl (\<lambda>obj key. obj_set obj key (coalesce (js_read v key) JNull)) []
       (keys (properties schema))"

section \<open>The RPC client and its messages\<close>

text \<open>
  The response messages of \<open>tfplugin5\<close>, each with a diagnostics list and the
  fields the provider reads. A message field may be absent.
\<close>

type_synonym AttributePath = "string list"

record Response =
  diagnostics :: "Diagnostic list"

record GetProviderSchema_Response = Response +
  provider :: "Schema option"
  dataSourceSchemas :: "(string \<times> Schema) list"
  resourceSchemas :: "(string \<times> Schema) list"

text \<open>
  \<open>ApplyResourceChange.Response\<close> and \<open>ReadResource.Response\<close> both carry
  \<open>newState\<close> and \<open>private\<close>.
\<close>

record NewState_Response = Response +
  newState :: "DynamicValue nullable"
  private' :: "bytes nullable"

record PlanResourceChange_Response = Response +
  plannedState :: "DynamicValue nullable"
  requiresReplace :: "AttributePath list"
  plannedPrivate :: "bytes nullable"

record ReadDataSource_Response = Response +
  state :: "DynamicValue nullable"

record PrepareProviderConfig_Response = Response +
  preparedConfig :: "DynamicValue nullable"

record UpgradeResourceState_Response = Response +
  upgradedState :: "DynamicValue nullable"

record ImportedResource =
  imported_typeName :: "string option"
  imported_state :: "DynamicValue nullable"
  imported_private :: "bytes nullable"

record ImportResourceState_Response = Response +
  importedResources :: "ImportedResource list"

text \<open>
  The request messages as the provider builds them, fields in the order the source
  writes them; an optional field left out of the object literal is \<open>None\<close>.
\<close>

datatype Request =
    GetSchema_Request
  | ApplyResourceChange_Request string DynamicValue DynamicValue "bytes option"
  | PrepareProviderConfig_Request DynamicValue
  | Configure_Request DynamicValue
  | ImportResourceState_Request string string
  | PlanResourceChange_Request string DynamicValue DynamicValue "bytes option"
  | ReadDataSource_Request string DynamicValue
  | ReadResource_Request string DynamicValue "bytes option"
  | UpgradeResourceState_Request string int RawState
  | ValidateDataSourceConfig_Request string DynamicValue
  | ValidateResourceTypeConfig_Request string DynamicValue

text \<open>
  \<open>tfplugin5.Provider\<close>, the RPC client: one method per protocol operation, each
  answering a request with a response or a rejection.
\<close>

record Provider_rpc =
  rpc_getSchema :: "Request \<Rightarrow> error + GetProviderSchema_Response"
  rpc_applyResourceChange :: "Request \<Rightarrow> error + NewState_Response"
  rpc_prepareProviderConfig :: "Request \<Rightarrow> error + PrepareProviderConfig_Response"
  rpc_configure :: "Request \<Rightarrow> error + Response"
  rpc_importResourceState :: "Request \<Rightarrow> error + ImportResourceState_Response"
  rpc_planResourceChange :: "Request \<Rightarrow> error + PlanResourceChange_Response"
  rpc_readDataSource :: "Request \<Rightarrow> error + ReadDataSource_Response"
  rpc_readResource :: "Request \<Rightarrow> error + NewState_Response"
  rpc_upgradeResourceState :: "Request \<Rightarrow> error + UpgradeResourceState_Response"
  rpc_validateDataSourceConfig :: "Request \<Rightarrow> error + Response"
  rpc_validateResourceTypeConfig :: "Request \<Rightarrow> error + Response"

text \<open>
  Modelled from the spec: \<open>throwDiagnosticErrors\<close> of \<open>errors.ts\<close>, which is not
  among the sources. Section 4.5: an operation "converts a non-empty diagnostics list
  into a thrown error before returning"; section 7: the error "carries the full
  diagnostic list". A response without diagnostics is passed on unchanged.
\<close>

definition throwDiagnosticErrors :: "'a Response_scheme \<Rightarrow> error + 'a Response_scheme" where
  "throwDiagnosticErrors res =
     (if diagnostics res = [] then Inr res else Inl (DiagnosticError (diagnostics res)))"

text \<open>\<open>rpc.method(request).then(throwDiagnosticErrors)\<close>.\<close>

definition thenThrowDiagnosticErrors ::
    "(Request \<Rightarrow> error + 'a Response_scheme) \<Rightarrow> Request \<Rightarrow> error + 'a Response_scheme" where
  "thenThrowDiagnosticErrors method request =
     (case method request of Inl e \<Rightarrow> Inl e | Inr res \<Rightarrow> throwDiagnosticErrors res)"

text \<open>\<open>JSON.parse(decoder.decode(bytes)) ?? {}\<close>.\<close>

definition parsePrivate :: "externals \<Rightarrow> bytes nullable \<Rightarrow> error + jsval" where
  "parsePrivate lib encoded =
     (case decoder_decode lib encoded of
        Inl e \<Rightarrow> Inl e
      | Inr txt \<Rightarrow>
          (case JSON_parse lib txt of
             Inl e \<Rightarrow> Inl e
           | Inr v \<Rightarrow> Inr (coalesce v (JObj []))))"

text \<open>
  \<open>options.private ? {priorPrivate: encoder.encode(JSON.stringify(options.private))} : {}\<close>:
  the field is present exactly when the option is (a record is an object, hence true).
\<close>

definition encodePrivate :: "externals \<Rightarrow> (string \<times> jsval) list option \<Rightarrow> bytes option" where
  "encodePrivate lib opt =
     (case opt of
        None \<Rightarrow> None
      | Some p \<Rightarrow> Some (encoder_encode lib (JSON_stringify lib (JObj p))))"

section \<open>The provider\<close>

text \<open>
  The private fields of class \<open>Provider\<close> (\<open>this.#rpc\<close>, \<open>this.#providerSchema\<close>,
  ...); the subprocess handle, used by \<open>shutdown\<close> only, is left out. A schema
  table is a record from type name to object type.
\<close>

record Provider =
  this_rpc :: Provider_rpc
  this_providerSchema :: SchemaType
  this_dataSourceSchemas :: "(string \<times> SchemaType) list"
  this_resourceSchemas :: "(string \<times> SchemaType) list"
  this_dataSourceStateSchemas :: "(string \<times> SchemaType) list"
  this_resourceStateSchemas :: "(string \<times> SchemaType) list"

definition Provider_constructor ::
    "externals \<Rightarrow> Provider_rpc \<Rightarrow> GetProviderSchema_Response \<Rightarrow> error + Provider" where
  "Provider_constructor lib rpc schema =
     (case provider schema of
        None \<Rightarrow> Inl (Error ''Unable to read provider schema'')
      | Some prov \<Rightarrow>
     (case schema_block prov of
        None \<Rightarrow> Inl (Error ''Unable to read provider schema'')
      | Some b \<Rightarrow>
     (case tfSchemaToSchemaType lib prov ARGS of Inl e \<Rightarrow> Inl e | Inr ps \<Rightarrow>
     (case tfSchemasRecordToSchemaTypeRecord lib (dataSourceSchemas schema) ARGS of
        Inl e \<Rightarrow> Inl e | Inr ds \<Rightarrow>
     (case tfSchemasRecordToSchemaTypeRecord lib (resourceSchemas schema) ARGS of
        Inl e \<Rightarrow> Inl e | Inr rs \<Rightarrow>
     (case tfSchemasRecordToSchemaTypeRecord lib (dataSourceSchemas schema) ATTRS of
        Inl e \<Rightarrow> Inl e | Inr dss \<Rightarrow>
     (case tfSchemasRecordToSchemaTypeRecord lib (resourceSchemas schema) ATTRS of
        Inl e \<Rightarrow> Inl e | Inr rss \<Rightarrow>
        Inr \<lparr>this_rpc = rpc, this_providerSchema = ps, this_dataSourceSchemas = ds,
             this_resourceSchemas = rs, this_dataSourceStateSchemas = dss,
             this_resourceStateSchemas = rss\<rparr>)))))))"

text \<open>
  Every operation returns the requests it put on the wire, in order, and its outcome:
  the value the promise resolves to, or the error it rejects with.
\<close>

text \<open>
  The function \<open>createProviderFactory\<close> returns, for the client \<open>newRPC\<close> has
  connected: it fetches the schema and constructs the provider from the response.
\<close>

definition createProvider :: "externals \<Rightarrow> Provider_rpc \<Rightarrow> Request list \<times> (error + Provider)" where
  "createProvider lib rpc =
     ([GetSchema_Request],
      (case rpc_getSchema rpc GetSchema_Request of
         Inl e \<Rightarrow> Inl e
       | Inr schema \<Rightarrow> Provider_constructor lib rpc schema))"

definition getSchema :: "Provider \<Rightarrow> Request list \<times> (error + GetProviderSchema_Response)" where
  "getSchema this =
     ([GetSchema_Request], thenThrowDiagnosticErrors (rpc_getSchema (this_rpc this)) GetSchema_Request)"

text \<open>The result is the pair of \<open>newState\<close> and \<open>private\<close>.\<close>

definition applyResourceChange ::
    "externals \<Rightarrow> Provider \<Rightarrow> string \<Rightarrow> jsval \<Rightarrow> jsval \<Rightarrow> (string \<times> jsval) list option
      \<Rightarrow> Request list \<times> (error + jsval \<times> jsval)" where
  "applyResourceChange lib this tn priorState plannedSt opt =
     (let request = ApplyResourceChange_Request tn (toDynamic lib priorState)
                      (toDynamic lib plannedSt) (encodePrivate lib opt)
      in ([request],
          (case thenThrowDiagnosticErrors (rpc_applyResourceChange (this_rpc this)) request of
             Inl e \<Rightarrow> Inl e
           | Inr res \<Rightarrow>
          (case fromDynamic lib (newState res) of
             Inl e \<Rightarrow> Inl e
           | Inr newSt \<Rightarrow>
               if \<not> truthy newSt then Inl (Error ''Unable to read planned state'')
               else (case parsePrivate lib (private' res) of
                       Inl e \<Rightarrow> Inl e
                     | Inr priv \<Rightarrow> Inr (newSt, priv))))))"

definition configure ::
    "externals \<Rightarrow> Provider \<Rightarrow> (string \<times> jsval) list \<Rightarrow> Request list \<times> (error + Response)" where
  "configure lib this config =
     (case validateOrThrow lib (this_providerSchema this) (JObj config) of
        Some e \<Rightarrow> ([], Inl e)
      | None \<Rightarrow>
          (let request = PrepareProviderConfig_Request
                 (toDynamic lib (JObj (optionalsToNulls config (this_providerSchema this))))
           in (case thenThrowDiagnosticErrors (rpc_prepareProviderConfig (this_rpc this)) request of
                 Inl e \<Rightarrow> ([request], Inl e)
               | Inr res \<Rightarrow>
                   (case preparedConfig res of
                      Undefined \<Rightarrow> ([request], Inl (Error ''Unable to prepare provider config''))
                    | Null \<Rightarrow> ([request], Inl (Error ''Unable to prepare provider config''))
                    | Value prepared \<Rightarrow>
                        ([request, Configure_Request prepared],
                         thenThrowDiagnosticErrors (rpc_configure (this_rpc this))
                           (Configure_Request prepared))))))"

text \<open>
  The callback of \<open>res.importedResources.map\<close>; a record is the triple of
  \<open>typeName\<close>, \<open>state\<close> and \<open>private\<close>.
\<close>

definition importOne :: "externals \<Rightarrow> ImportedResource \<Rightarrow> error + string \<times> jsval \<times> jsval" where
  "importOne lib importedResource =
     (case imported_typeName importedResource of
        None \<Rightarrow> Inl (Error ''Unable to read type name'')
      | Some tn \<Rightarrow>
          (case fromDynamic lib (imported_state importedResource) of
             Inl e \<Rightarrow> Inl e
           | Inr st \<Rightarrow>
               if \<not> truthy st then Inl (Error ''Unable to read state'')
               else (case imported_private importedResource of
                       Undefined \<Rightarrow> Inr (tn, st, JObj [])
                     | Null \<Rightarrow> Inr (tn, st, JObj [])
                     | Value b \<Rightarrow>
                         (case parsePrivate lib (Value b) of
                            Inl e \<Rightarrow> Inl e
                          | Inr priv \<Rightarrow> Inr (tn, st, priv)))))"

fun importAll :: "externals \<Rightarrow> ImportedResource list \<Rightarrow> error + (string \<times> jsval \<times> jsval) list" where
  "importAll lib [] = Inr []"
| "importAll lib (r # rs) =
     (case importOne lib r of
        Inl e \<Rightarrow> Inl e
      | Inr x \<Rightarrow> (case importAll lib rs of Inl e \<Rightarrow> Inl e | Inr xs \<Rightarrow> Inr (x # xs)))"

definition importResourceState ::
    "externals \<Rightarrow> Provider \<Rightarrow> string \<Rightarrow> string
      \<Rightarrow> Request list \<times> (error + (string \<times> jsval \<times> jsval) list)" where
  "importResourceState lib this tn ident =
     (let request = ImportResourceState_Request tn ident
      in ([request],
          (case thenThrowDiagnosticErrors (rpc_importResourceState (this_rpc this)) request of
             Inl e \<Rightarrow> Inl e
           | Inr res \<Rightarrow> importAll lib (importedResources res))))"

text \<open>The result is the triple of \<open>plannedState\<close>, \<open>plannedPrivate\<close> and \<open>requiresReplace\<close>.\<close>

definition planResourceChange ::
    "externals \<Rightarrow> Provider \<Rightarrow> string \<Rightarrow> jsval \<Rightarrow> jsval \<Rightarrow> (string \<times> jsval) list option
      \<Rightarrow> Request list \<times> (error + jsval \<times> jsval \<times> AttributePath list)" where
  "planResourceChange lib this tn priorState proposedNewState opt =
     (case obj_get (this_resourceStateSchemas this) tn of
        None \<Rightarrow> ([], Inl (TypeError (''Invalid resource type '' @ tn)))
      | Some resourceSchema \<Rightarrow>
          (let request = PlanResourceChange_Request tn (toDynamic lib priorState)
                           (toDynamic lib proposedNewState) (encodePrivate lib opt)
           in ([request],
               (case thenThrowDiagnosticErrors (rpc_planResourceChange (this_rpc this)) request of
                  Inl e \<Rightarrow> Inl e
                | Inr res \<Rightarrow>
               (case fromDynamic lib (plannedState res) of
                  Inl e \<Rightarrow> Inl e
                | Inr plannedSt \<Rightarrow>
                    if \<not> truthy plannedSt then Inl (Error ''Unable to read planned state'')
                    else (case parsePrivate lib (plannedPrivate res) of
                            Inl e \<Rightarrow> Inl e
                          | Inr priv \<Rightarrow> Inr (plannedSt, priv, requiresReplace res)))))))"

definition readDataSource ::
    "externals \<Rightarrow> Provider \<Rightarrow> string \<Rightarrow> (string \<times> jsval) list
      \<Rightarrow> Request list \<times> (error + jsval)" where
  "readDataSource lib this tn config =
     (case obj_get (this_dataSourceSchemas this) tn of
        None \<Rightarrow> ([], Inl (TypeError (''Invalid data source type '' @ tn)))
      | Some dataSourceSchema \<Rightarrow>
          (case validateOrThrow lib dataSourceSchema (JObj config) of
             Some e \<Rightarrow> ([], Inl e)
           | None \<Rightarrow>
               (let dynamicConfig = toDynamic lib (JObj (optionalsToNulls config dataSourceSchema));
                    request = ReadDataSource_Request tn dynamicConfig
                in ([request],
                    (case thenThrowDiagnosticErrors (rpc_readDataSource (this_rpc this)) request of
                       Inl e \<Rightarrow> Inl e
                     | Inr res \<Rightarrow>
                    (case fromDynamic lib (state res) of
                       Inl e \<Rightarrow> Inl e
                     | Inr st \<Rightarrow>
                         if \<not> truthy st then Inl (Error ''Unable to read state from data source'')
                         else Inr st))))))"

definition readResource ::
    "externals \<Rightarrow> Provider \<Rightarrow> string \<Rightarrow> jsval \<Rightarrow> (string \<times> jsval) list option
      \<Rightarrow> Request list \<times> (error + jsval)" where
  "readResource lib this tn currentState opt =
     (case obj_get (this_resourceStateSchemas this) tn of
        None \<Rightarrow> ([], Inl (TypeError (''Invalid resource type '' @ tn)))
      | Some resourceSchema \<Rightarrow>
          (let request = ReadResource_Request tn (toDynamic lib currentState) (encodePrivate lib opt)
           in ([request],
               (case thenThrowDiagnosticErrors (rpc_readResource (this_rpc this)) request of
                  Inl e \<Rightarrow> Inl e
                | Inr res \<Rightarrow>
               (case fromDynamic lib (newState res) of
                  Inl e \<Rightarrow> Inl e
                | Inr st \<Rightarrow> Inr (coalesce st JUndefined))))))"

definition upgradeResourceState ::
    "externals \<Rightarrow> Provider \<Rightarrow> string \<Rightarrow> int \<Rightarrow> jsval \<Rightarrow> Request list \<times> (error + jsval)" where
  "upgradeResourceState lib this tn version st =
     (let request = UpgradeResourceState_Request tn version (toRawState lib st)
      in ([request],
          (case thenThrowDiagnosticErrors (rpc_upgradeResourceState (this_rpc this)) request of
             Inl e \<Rightarrow> Inl e
           | Inr res \<Rightarrow>
          (case fromDynamic lib (upgradedState res) of
             Inl e \<Rightarrow> Inl e
           | Inr upgraded \<Rightarrow>
               if \<not> truthy upgraded then Inl (Error ''Unable to upgrade resource state'')
               else Inr upgraded))))"

definition validateDataSourceConfig ::
    "externals \<Rightarrow> Provider \<Rightarrow> string \<Rightarrow> jsval \<Rightarrow> Request list \<times> (error + Response)" where
  "validateDataSourceConfig lib this tn config =
     (let request = ValidateDataSourceConfig_Request tn (toDynamic lib config)
      in ([request], rpc_validateDataSourceConfig (this_rpc this) request))"

definition validateResourceTypeConfig ::
    "externals \<Rightarrow> Provider \<Rightarrow> string \<Rightarrow> jsval \<Rightarrow> Request list \<times> (error + Response)" where
  "validateResourceTypeConfig lib this tn config =
     (let request = ValidateResourceTypeConfig_Request tn (toDynamic lib config)
      in ([request], rpc_validateResourceTypeConfig (this_rpc this) request))"

section \<open>Vocabulary of the properties\<close>



text \<open>
  A descriptor is unsupported when the atom \<open>any\<close>, an unrecognized atom or an
  unrecognized tag occurs in it, at the top or at any depth.
\<close>

fun unsupported :: "CtyTypeSchema \<Rightarrow> bool"
  and unsupportedFields :: "(string \<times> CtyTypeSchema) list \<Rightarrow> bool" where
  "unsupported (CtyAtom s) = (s \<noteq> ''bool'' \<and> s \<noteq> ''number'' \<and> s \<noteq> ''string'')"
| "unsupported (CtyTagged tag d) =
     ((tag \<noteq> ''list'' \<and> tag \<noteq> ''map'' \<and> tag \<noteq> ''set'') \<or> unsupported d)"
| "unsupported (CtyObject props) = unsupportedFields props"
| "unsupportedFields [] = False"
| "unsupportedFields ((key, d) # rest) = (unsupported d \<or> unsupportedFields rest)"

text \<open>The two errors of \<open>ctyToType\<close>, which the spec calls \<open>UnknownType\<close>.\<close>

fun isUnknownType :: "error \<Rightarrow> bool" where
  "isUnknownType (Error msg) = (msg = ''unknown type'')"
| "isUnknownType (UnknownType d) = True"
| "isUnknownType e = False"

text \<open>
  \<open>answered method wire i res\<close>: the \<open>i\<close>-th request an operation put on the wire
  was answered by the client's \<open>method\<close> with the response \<open>res\<close>.
\<close>

definition answered ::
    "(Request \<Rightarrow> error + 'a Response_scheme) \<Rightarrow> Request list \<Rightarrow> nat \<Rightarrow> 'a Response_scheme \<Rightarrow> bool" where
  "answered method wire i res = (i < length wire \<and> method (wire ! i) = Inr res)"

section \<open>A sample environment\<close>

text \<open>
  An instance of the external functions on which the operations can be evaluated. It
  covers the few values and texts the examples below use, with the results the real
  libraries give there: \<open>JSON.stringify(undefined)\<close> is \<open>undefined\<close>,
  \<open>encoder.encode(undefined)\<close> and \<open>decoder.decode()\<close> are empty, \<open>JSON.parse('')\<close>
  throws a \<open>SyntaxError\<close>; msgpack's \<open>nil\<close> is the byte \<open>0xc0\<close>, an empty map
  \<open>0x80\<close>. Everything else is reported as unsupported.
\<close>

definition quoted :: "string \<Rightarrow> string" where
  "quoted s = CHR 0x22 # s @ [CHR 0x22]"

definition sample_pack :: "jsval \<Rightarrow> bytes" where
  "sample_pack v =
     (if v = JNull then [CHR 0xC0]
      else if v = JObj [] then [CHR 0x80]
      else if v = JObj [(''id'', JStr ''a'')]
        then [CHR 0x81, CHR 0xA2, CHR ''i'', CHR ''d'', CHR 0xA1, CHR ''a'']
      else [CHR 0xC1])"

definition sample_unpack :: "bytes \<Rightarrow> error + jsval" where
  "sample_unpack b =
     (if b = [CHR 0xC0] then Inr JNull
      else if b = [CHR 0x80] then Inr (JObj [])
      else if b = [CHR 0x81, CHR 0xA2, CHR ''i'', CHR ''d'', CHR 0xA1, CHR ''a'']
        then Inr (JObj [(''id'', JStr ''a'')])
      else Inl (Error ''msgpack: unsupported''))"

definition sample_stringify :: "jsval \<Rightarrow> string option" where
  "sample_stringify v =
     (if v = JNull then Some ''null''
      else if v = JObj [] then Some ''{}''
      else if v = JObj [(''tag'', JStr ''x'')]
        then Some (''{'' @ quoted ''tag'' @ '':'' @ quoted ''x'' @ ''}'')
      else None)"

definition sample_parse :: "string \<Rightarrow> error + jsval" where
  "sample_parse txt =
     (if txt = ''null'' then Inr JNull
      else if txt = ''{}'' then Inr (JObj [])
      else if txt = ''{'' @ quoted ''tag'' @ '':'' @ quoted ''x'' @ ''}''
        then Inr (JObj [(''tag'', JStr ''x'')])
      else Inl (SyntaxError txt))"

definition sample_parse_cty :: "string \<Rightarrow> error + CtyTypeSchema" where
  "sample_parse_cty txt =
     (if txt = quoted ''string'' then Inr (CtyAtom ''string'')
      else if txt = quoted ''bool'' then Inr (CtyAtom ''bool'')
      else if txt = quoted ''number'' then Inr (CtyAtom ''number'')
      else Inl (SyntaxError txt))"

definition sample_externals :: externals where
  "sample_externals =
     \<lparr>msgpack_pack = sample_pack,
      msgpack_unpack = sample_unpack,
      JSON_stringify = sample_stringify,
      JSON_parse = sample_parse,
      JSON_parse_cty = sample_parse_cty,
      encoder_encode = (\<lambda>s. case s of None \<Rightarrow> [] | Some t \<Rightarrow> t),
      decoder_decode = (\<lambda>b. case b of
          Undefined \<Rightarrow> Inr []
        | Null \<Rightarrow> Inl (TypeError ''The input argument must be an ArrayBuffer or ArrayBufferView'')
        | Value bs \<Rightarrow> Inr bs),
      validateOrThrow = (\<lambda>schema v. None)\<rparr>"

text \<open>
  A client whose every method answers with the diagnostics \<open>ds\<close>, the state \<open>st\<close>
  and the private bytes \<open>priv\<close>, and a schema response with one resource type and
  one data source type.
\<close>

definition sample_attribute :: Attribute where
  "sample_attribute =
     \<lparr>name = Some ''id'', type = Some (quoted ''string''),
      required = False, optional = False, computed = True\<rparr>"

definition sample_schema :: Schema where
  "sample_schema = Schema (Some (Block (Some [sample_attribute]) None))"


definition sample_schema_response :: "Diagnostic list \<Rightarrow> GetProviderSchema_Response" where
  "sample_schema_response ds =
     \<lparr>diagnostics = ds, provider = Some (Schema (Some (Block None None))),
      dataSourceSchemas = [(''widgets'', sample_schema)],
      resourceSchemas = [(''widget'', sample_schema)]\<rparr>"

text \<open>The packed empty map, as a state a response carries.\<close>

definition sample_state :: "DynamicValue nullable" where
  "sample_state = Value \<lparr>msgpack = Value [CHR 0x80]\<rparr>"

definition sample_rpc :: "Diagnostic list \<Rightarrow> DynamicValue nullable \<Rightarrow> bytes nullable \<Rightarrow> Provider_rpc" where
  "sample_rpc ds st priv =
     \<lparr>rpc_getSchema = (\<lambda>r. Inr (sample_schema_response ds)),
      rpc_applyResourceChange = (\<lambda>r. Inr \<lparr>diagnostics = ds, newState = st, private' = priv\<rparr>),
      rpc_prepareProviderConfig = (\<lambda>r. Inr \<lparr>diagnostics = ds, preparedConfig = st\<rparr>),
      rpc_configure = (\<lambda>r. Inr \<lparr>diagnostics = ds\<rparr>),
      rpc_importResourceState = (\<lambda>r. Inr \<lparr>diagnostics = ds, importedResources =
          [\<lparr>imported_typeName = Some ''widget'', imported_state = st, imported_private = priv\<rparr>]\<rparr>),
      rpc_planResourceChange = (\<lambda>r. Inr \<lparr>diagnostics = ds, plannedState = st,
          requiresReplace = [], plannedPrivate = priv\<rparr>),
      rpc_readDataSource = (\<lambda>r. Inr \<lparr>diagnostics = ds, state = st\<rparr>),
      rpc_readResource = (\<lambda>r. Inr \<lparr>diagnostics = ds, newState = st, private' = priv\<rparr>),
      rpc_upgradeResourceState = (\<lambda>r. Inr \<lparr>diagnostics = ds, upgradedState = st\<rparr>),
      rpc_validateDataSourceConfig = (\<lambda>r. Inr \<lparr>diagnostics = ds\<rparr>),
      rpc_validateResourceTypeConfig = (\<lambda>r. Inr \<lparr>diagnostics = ds\<rparr>)\<rparr>"

definition sample_provider :: "Provider_rpc \<Rightarrow> Provider" where
  "sample_provider rpc =
     \<lparr>this_rpc = rpc,
      this_providerSchema = ObjectType [],
      this_dataSourceSchemas = [(''widgets'', ObjectType [(''id'', OptionalType StringType)])],
      this_resourceSchemas = [(''widget'', ObjectType [(''id'', OptionalType StringType)])],
      this_dataSourceStateSchemas = [(''widgets'', ObjectType [(''id'', StringType)])],
      this_resourceStateSchemas = [(''widget'', ObjectType [(''id'', StringType)])]\<rparr>"

definition sample_diagnostic :: Diagnostic where
  "sample_diagnostic = \<lparr>severity = ERROR, summary = ''boom'', detail = []\<rparr>"

section \<open>Objects as property lists\<close>











section \<open>Unfolding the model on concrete inputs\<close>

lemmas sample_defs = sample_externals_def sample_pack_def sample_unpack_def sample_stringify_def
  sample_parse_def sample_parse_cty_def quoted_def sample_attribute_def sample_schema_def
  sample_schema_response_def sample_state_def sample_rpc_def sample_provider_def

lemmas eval_defs = decodeCtyType_def attributeStep_def markOptional_def wrapNesting_def
  blockRequired_def tfSchemaToSchemaType_def tfSchemasRecordToSchemaTypeRecord_def
  obj_get_def keys_def toDynamic_def toRawState_def
  nullish_def coalesce_def js_read_def optionalsToNulls_def
  throwDiagnosticErrors_def thenThrowDiagnosticErrors_def parsePrivate_def encodePrivate_def
  Provider_constructor_def getSchema_def applyResourceChange_def configure_def importOne_def
  importResourceState_def planResourceChange_def readDataSource_def readResource_def
  upgradeResourceState_def validateDataSourceConfig_def validateResourceTypeConfig_def

section \<open>The wire type decoder\<close>

lemma ctyToType_outcome:
  "(case ctyToType d of Inl e \<Rightarrow> isUnknownType e \<and> unsupported d | Inr t \<Rightarrow> \<not> unsupported d)"
  "(case ctyFields props acc of Inl e \<Rightarrow> isUnknownType e \<and> unsupportedFields props
      | Inr ts \<Rightarrow> \<not> unsupportedFields props)"
  by (induction d and props acc rule: ctyToType_ctyFields.induct)
     (auto split: sum.splits)

text \<open>
  C8, as the code has it. \<open>ctyToType\<close> fails, and then with one of its two
  \<open>UnknownType\<close> errors, exactly on the descriptors in which the atom \<open>any\<close>, an
  unrecognized atom or an unrecognized tag occurs at any depth; on every other
  descriptor it succeeds. A \<open>list\<close> and a \<open>set\<close> descriptor decode alike, to the
  array of the decoded element type (or to the element's error), and a \<open>map\<close>
  descriptor to the map of it.
\<close>

theorem ctyToType_fails_on_unsupported:
  "(case ctyToType d of Inl e \<Rightarrow> isUnknownType e \<and> unsupported d | Inr t \<Rightarrow> \<not> unsupported d)
   \<and> ((\<exists>t. ctyToType d = Inr t) = (\<not> unsupported d))
   \<and> ctyToType (CtyTagged ''list'' d) =
       (case ctyToType d of Inl e \<Rightarrow> Inl e | Inr t \<Rightarrow> Inr (ArrayType t))
   \<and> ctyToType (CtyTagged ''set'' d) = ctyToType (CtyTagged ''list'' d)
   \<and> ctyToType (CtyTagged ''map'' d) =
       (case ctyToType d of Inl e \<Rightarrow> Inl e | Inr t \<Rightarrow> Inr (MapType t))"
proof -
  have a: "(case ctyToType d of Inl e \<Rightarrow> isUnknownType e \<and> unsupported d | Inr t \<Rightarrow> \<not> unsupported d)"
    by (rule ctyToType_outcome)
  then have b: "(\<exists>t. ctyToType d = Inr t) = (\<not> unsupported d)"
    by (cases "ctyToType d") auto
  show ?thesis using a b by simp
qed

text \<open>
  The descriptor \<open>['list', 'any']\<close> is not the atom \<open>any\<close> and its tag is
  recognized, yet decoding fails: the error of the element is the error of the list.
\<close>

theorem nested_list_of_any_counterexample:
  "ctyToType (CtyTagged ''list'' (CtyAtom ''any'')) = Inl (Error ''unknown type'')
   \<and> CtyTagged ''list'' (CtyAtom ''any'') \<noteq> CtyAtom ''any''"
  by simp

section \<open>The block schema translator\<close>




















section \<open>The dynamic value codec\<close>






section \<open>The provider\<close>










lemma thenThrow_diagnosed:
  "method request = Inr res \<Longrightarrow> diagnostics res \<noteq> [] \<Longrightarrow>
     thenThrowDiagnosticErrors method request = Inl (DiagnosticError (diagnostics res))"
  by (simp add: thenThrowDiagnosticErrors_def throwDiagnosticErrors_def)

lemma getSchema_diagnosed:
  "answered (rpc_getSchema (this_rpc this)) (fst (getSchema this)) 0 r \<Longrightarrow> diagnostics r \<noteq> [] \<Longrightarrow>
     snd (getSchema this) = Inl (DiagnosticError (diagnostics r))"
  by (simp add: getSchema_def answered_def thenThrow_diagnosed)

lemma applyResourceChange_diagnosed:
  "answered (rpc_applyResourceChange (this_rpc this))
      (fst (applyResourceChange lib this tn p q opt)) 0 r \<Longrightarrow> diagnostics r \<noteq> [] \<Longrightarrow>
     snd (applyResourceChange lib this tn p q opt) = Inl (DiagnosticError (diagnostics r))"
  by (simp add: applyResourceChange_def answered_def thenThrow_diagnosed Let_def)

lemma configure_wire:
  "fst (configure lib this config) = [] \<or>
   (\<exists>d. fst (configure lib this config) =
      PrepareProviderConfig_Request
        (toDynamic lib (JObj (optionalsToNulls config (this_providerSchema this)))) # d)"
  by (auto simp: configure_def Let_def split: option.splits sum.splits nullable.splits)

lemma configure_prepare_diagnosed:
  assumes "answered (rpc_prepareProviderConfig (this_rpc this)) (fst (configure lib this config)) 0 r"
    and "diagnostics r \<noteq> []"
  shows "snd (configure lib this config) = Inl (DiagnosticError (diagnostics r))"
proof -
  let ?req = "PrepareProviderConfig_Request
        (toDynamic lib (JObj (optionalsToNulls config (this_providerSchema this))))"
  from assms(1) configure_wire [of lib this config]
  have r: "rpc_prepareProviderConfig (this_rpc this) ?req = Inr r"
    and v: "validateOrThrow lib (this_providerSchema this) (JObj config) = None"
    by (auto simp: answered_def configure_def split: option.splits)
  from thenThrow_diagnosed [of "rpc_prepareProviderConfig (this_rpc this)" ?req r] r assms(2) v
  show ?thesis
    by (simp add: configure_def Let_def)
qed

lemma configure_configure_diagnosed:
  assumes "answered (rpc_configure (this_rpc this)) (fst (configure lib this config)) 1 r"
    and "diagnostics r \<noteq> []"
  shows "snd (configure lib this config) = Inl (DiagnosticError (diagnostics r))"
  using assms
  by (auto simp: configure_def Let_def answered_def thenThrow_diagnosed
      split: option.splits sum.splits nullable.splits)

lemma importResourceState_diagnosed:
  "answered (rpc_importResourceState (this_rpc this))
      (fst (importResourceState lib this tn ident)) 0 r \<Longrightarrow> diagnostics r \<noteq> [] \<Longrightarrow>
     snd (importResourceState lib this tn ident) = Inl (DiagnosticError (diagnostics r))"
  by (simp add: importResourceState_def answered_def thenThrow_diagnosed Let_def)

lemma planResourceChange_diagnosed:
  "answered (rpc_planResourceChange (this_rpc this))
      (fst (planResourceChange lib this tn p q opt)) 0 r \<Longrightarrow> diagnostics r \<noteq> [] \<Longrightarrow>
     snd (planResourceChange lib this tn p q opt) = Inl (DiagnosticError (diagnostics r))"
  by (auto simp: planResourceChange_def answered_def thenThrow_diagnosed Let_def
      split: option.splits)

lemma readDataSource_diagnosed:
  "answered (rpc_readDataSource (this_rpc this))
      (fst (readDataSource lib this tn config)) 0 r \<Longrightarrow> diagnostics r \<noteq> [] \<Longrightarrow>
     snd (readDataSource lib this tn config) = Inl (DiagnosticError (diagnostics r))"
  by (auto simp: readDataSource_def answered_def thenThrow_diagnosed Let_def
      split: option.splits)

lemma readResource_diagnosed:
  "answered (rpc_readResource (this_rpc this))
      (fst (readResource lib this tn cur opt)) 0 r \<Longrightarrow> diagnostics r \<noteq> [] \<Longrightarrow>
     snd (readResource lib this tn cur opt) = Inl (DiagnosticError (diagnostics r))"
  by (auto simp: readResource_def answered_def thenThrow_diagnosed Let_def
      split: option.splits)

lemma upgradeResourceState_diagnosed:
  "answered (rpc_upgradeResourceState (this_rpc this))
      (fst (upgradeResourceState lib this tn ver st)) 0 r \<Longrightarrow> diagnostics r \<noteq> [] \<Longrightarrow>
     snd (upgradeResourceState lib this tn ver st) = Inl (DiagnosticError (diagnostics r))"
  by (simp add: upgradeResourceState_def answered_def thenThrow_diagnosed Let_def)

lemma validate_returns_response:
  "answered (rpc_validateDataSourceConfig (this_rpc this))
      (fst (validateDataSourceConfig lib this tn c)) 0 r \<Longrightarrow>
     snd (validateDataSourceConfig lib this tn c) = Inr r"
  "answered (rpc_validateResourceTypeConfig (this_rpc this))
      (fst (validateResourceTypeConfig lib this tn c)) 0 r' \<Longrightarrow>
     snd (validateResourceTypeConfig lib this tn c) = Inr r'"
  by (simp_all add: validateDataSourceConfig_def validateResourceTypeConfig_def answered_def Let_def)

text \<open>
  C3. For each operation of the provider other than the two validate operations:
  when the client answers a request of the operation with a response whose
  diagnostics list is not empty, the operation fails with the \<open>DiagnosticError\<close>
  of that list (\<open>configure\<close> makes two calls, and this holds of both). The two
  validate operations return the client's response as it is, diagnostics included.
\<close>

theorem diagnostics_thrown_except_validate:
  "(answered (rpc_getSchema (this_rpc this)) (fst (getSchema this)) 0 r1
      \<and> diagnostics r1 \<noteq> [] \<longrightarrow>
      snd (getSchema this) = Inl (DiagnosticError (diagnostics r1)))
   \<and> (answered (rpc_applyResourceChange (this_rpc this))
        (fst (applyResourceChange lib this tn p q opt)) 0 r2
      \<and> diagnostics r2 \<noteq> [] \<longrightarrow>
      snd (applyResourceChange lib this tn p q opt) = Inl (DiagnosticError (diagnostics r2)))
   \<and> (answered (rpc_prepareProviderConfig (this_rpc this)) (fst (configure lib this config)) 0 r3
      \<and> diagnostics r3 \<noteq> [] \<longrightarrow>
      snd (configure lib this config) = Inl (DiagnosticError (diagnostics r3)))
   \<and> (answered (rpc_configure (this_rpc this)) (fst (configure lib this config)) 1 r4
      \<and> diagnostics r4 \<noteq> [] \<longrightarrow>
      snd (configure lib this config) = Inl (DiagnosticError (diagnostics r4)))
   \<and> (answered (rpc_importResourceState (this_rpc this))
        (fst (importResourceState lib this tn ident)) 0 r5
      \<and> diagnostics r5 \<noteq> [] \<longrightarrow>
      snd (importResourceState lib this tn ident) = Inl (DiagnosticError (diagnostics r5)))
   \<and> (answered (rpc_planResourceChange (this_rpc this))
        (fst (planResourceChange lib this tn p q opt)) 0 r6
      \<and> diagnostics r6 \<noteq> [] \<longrightarrow>
      snd (planResourceChange lib this tn p q opt) = Inl (DiagnosticError (diagnostics r6)))
   \<and> (answered (rpc_readDataSource (this_rpc this))
        (fst (readDataSource lib this tn config)) 0 r7
      \<and> diagnostics r7 \<noteq> [] \<longrightarrow>
      snd (readDataSource lib this tn config) = Inl (DiagnosticError (diagnostics r7)))
   \<and> (answered (rpc_readResource (this_rpc this))
        (fst (readResource lib this tn p opt)) 0 r8
      \<and> diagnostics r8 \<noteq> [] \<longrightarrow>
      snd (readResource lib this tn p opt) = Inl (DiagnosticError (diagnostics r8)))
   \<and> (answered (rpc_upgradeResourceState (this_rpc this))
        (fst (upgradeResourceState lib this tn ver p)) 0 r9
      \<and> diagnostics r9 \<noteq> [] \<longrightarrow>
      snd (upgradeResourceState lib this tn ver p) = Inl (DiagnosticError (diagnostics r9)))
   \<and> (answered (rpc_validateDataSourceConfig (this_rpc this))
        (fst (validateDataSourceConfig lib this tn p)) 0 r10 \<longrightarrow>
      snd (validateDataSourceConfig lib this tn p) = Inr r10)
   \<and> (answered (rpc_validateResourceTypeConfig (this_rpc this))
        (fst (validateResourceTypeConfig lib this tn p)) 0 r11 \<longrightarrow>
      snd (validateResourceTypeConfig lib this tn p) = Inr r11)"
  by (intro conjI impI; (elim conjE)?;
      (rule getSchema_diagnosed applyResourceChange_diagnosed configure_prepare_diagnosed
        configure_configure_diagnosed importResourceState_diagnosed planResourceChange_diagnosed
        readDataSource_diagnosed readResource_diagnosed upgradeResourceState_diagnosed
        validate_returns_response; assumption))

theorem diagnostics_thrown_except_validate_witness:
  "snd (getSchema (sample_provider (sample_rpc [sample_diagnostic] sample_state Undefined)))
     = Inl (DiagnosticError [sample_diagnostic])
   \<and> snd (applyResourceChange sample_externals
        (sample_provider (sample_rpc [sample_diagnostic] sample_state Undefined))
        ''widget'' (JObj []) (JObj []) None)
     = Inl (DiagnosticError [sample_diagnostic])
   \<and> snd (configure sample_externals
        (sample_provider (sample_rpc [sample_diagnostic] sample_state Undefined)) [])
     = Inl (DiagnosticError [sample_diagnostic])
   \<and> configure sample_externals
        (sample_provider ((sample_rpc [] sample_state Undefined)
           \<lparr>rpc_configure := \<lambda>r. Inr \<lparr>diagnostics = [sample_diagnostic]\<rparr>\<rparr>)) []
     = ([PrepareProviderConfig_Request \<lparr>msgpack = Value [CHR 0x80]\<rparr>,
         Configure_Request \<lparr>msgpack = Value [CHR 0x80]\<rparr>],
        Inl (DiagnosticError [sample_diagnostic]))
   \<and> snd (importResourceState sample_externals
        (sample_provider (sample_rpc [sample_diagnostic] sample_state Undefined))
        ''widget'' ''w-1'')
     = Inl (DiagnosticError [sample_diagnostic])
   \<and> snd (planResourceChange sample_externals
        (sample_provider (sample_rpc [sample_diagnostic] sample_state Undefined))
        ''widget'' (JObj []) (JObj []) None)
     = Inl (DiagnosticError [sample_diagnostic])
   \<and> snd (readDataSource sample_externals
        (sample_provider (sample_rpc [sample_diagnostic] sample_state Undefined))
        ''widgets'' [])
     = Inl (DiagnosticError [sample_diagnostic])
   \<and> snd (readResource sample_externals
        (sample_provider (sample_rpc [sample_diagnostic] sample_state Undefined))
        ''widget'' (JObj []) None)
     = Inl (DiagnosticError [sample_diagnostic])
   \<and> snd (upgradeResourceState sample_externals
        (sample_provider (sample_rpc [sample_diagnostic] sample_state Undefined))
        ''widget'' 1 (JObj []))
     = Inl (DiagnosticError [sample_diagnostic])
   \<and> snd (validateDataSourceConfig sample_externals
        (sample_provider (sample_rpc [sample_diagnostic] sample_state Undefined))
        ''widgets'' (JObj []))
     = Inr \<lparr>diagnostics = [sample_diagnostic]\<rparr>
   \<and> snd (validateResourceTypeConfig sample_externals
        (sample_provider (sample_rpc [sample_diagnostic] sample_state Undefined))
        ''widget'' (JObj []))
     = Inr \<lparr>diagnostics = [sample_diagnostic]\<rparr>"
proof -
  let ?ds = "[sample_diagnostic]"
  let ?P = "sample_provider (sample_rpc ?ds sample_state Undefined)"
  let ?Q = "sample_provider ((sample_rpc [] sample_state Undefined)
           \<lparr>rpc_configure := \<lambda>r. Inr \<lparr>diagnostics = [sample_diagnostic]\<rparr>\<rparr>)"
  let ?new = "\<lparr>diagnostics = ?ds, newState = sample_state, private' = Undefined\<rparr>"
  have a1: "answered (rpc_getSchema (this_rpc ?P)) (fst (getSchema ?P)) 0 (sample_schema_response ?ds)"
    by (simp add: sample_rpc_def sample_provider_def getSchema_def answered_def)
  have n1: "diagnostics (sample_schema_response ?ds) \<noteq> []"
    by (simp add: sample_schema_response_def)
  have a2: "answered (rpc_applyResourceChange (this_rpc ?P))
      (fst (applyResourceChange sample_externals ?P ''widget'' (JObj []) (JObj []) None)) 0 ?new"
    by (simp add: sample_rpc_def sample_provider_def applyResourceChange_def answered_def Let_def)
  have a3: "answered (rpc_prepareProviderConfig (this_rpc ?P))
      (fst (configure sample_externals ?P [])) 0 \<lparr>diagnostics = ?ds, preparedConfig = sample_state\<rparr>"
    by (simp add: sample_defs eval_defs answered_def)
  have q: "configure sample_externals ?Q []
     = ([PrepareProviderConfig_Request \<lparr>msgpack = Value [CHR 0x80]\<rparr>,
         Configure_Request \<lparr>msgpack = Value [CHR 0x80]\<rparr>],
        thenThrowDiagnosticErrors (rpc_configure (this_rpc ?Q))
          (Configure_Request \<lparr>msgpack = Value [CHR 0x80]\<rparr>))"
    by (simp add: sample_defs configure_def optionalsToNulls_def keys_def toDynamic_def Let_def
        thenThrowDiagnosticErrors_def throwDiagnosticErrors_def)
  have a4: "answered (rpc_configure (this_rpc ?Q)) (fst (configure sample_externals ?Q [])) 1
      \<lparr>diagnostics = ?ds\<rparr>"
    by (simp add: q answered_def) (simp add: sample_defs)
  have a5: "answered (rpc_importResourceState (this_rpc ?P))
      (fst (importResourceState sample_externals ?P ''widget'' ''w-1'')) 0
      \<lparr>diagnostics = ?ds, importedResources =
          [\<lparr>imported_typeName = Some ''widget'', imported_state = sample_state,
            imported_private = Undefined\<rparr>]\<rparr>"
    by (simp add: sample_rpc_def sample_provider_def importResourceState_def answered_def Let_def)
  have a6: "answered (rpc_planResourceChange (this_rpc ?P))
      (fst (planResourceChange sample_externals ?P ''widget'' (JObj []) (JObj []) None)) 0
      \<lparr>diagnostics = ?ds, plannedState = sample_state, requiresReplace = [],
        plannedPrivate = Undefined\<rparr>"
    by (simp add: sample_rpc_def sample_provider_def planResourceChange_def answered_def Let_def
        obj_get_def)
  have a7: "answered (rpc_readDataSource (this_rpc ?P))
      (fst (readDataSource sample_externals ?P ''widgets'' [])) 0
      \<lparr>diagnostics = ?ds, state = sample_state\<rparr>"
    by (simp add: sample_rpc_def sample_provider_def readDataSource_def answered_def Let_def
        obj_get_def sample_externals_def)
  have a8: "answered (rpc_readResource (this_rpc ?P))
      (fst (readResource sample_externals ?P ''widget'' (JObj []) None)) 0 ?new"
    by (simp add: sample_rpc_def sample_provider_def readResource_def answered_def Let_def
        obj_get_def)
  have a9: "answered (rpc_upgradeResourceState (this_rpc ?P))
      (fst (upgradeResourceState sample_externals ?P ''widget'' 1 (JObj []))) 0
      \<lparr>diagnostics = ?ds, upgradedState = sample_state\<rparr>"
    by (simp add: sample_rpc_def sample_provider_def upgradeResourceState_def answered_def Let_def)
  have a10: "answered (rpc_validateDataSourceConfig (this_rpc ?P))
      (fst (validateDataSourceConfig sample_externals ?P ''widgets'' (JObj []))) 0
      \<lparr>diagnostics = ?ds\<rparr>"
    by (simp add: sample_rpc_def sample_provider_def validateDataSourceConfig_def answered_def Let_def)
  have a11: "answered (rpc_validateResourceTypeConfig (this_rpc ?P))
      (fst (validateResourceTypeConfig sample_externals ?P ''widget'' (JObj []))) 0
      \<lparr>diagnostics = ?ds\<rparr>"
    by (simp add: sample_rpc_def sample_provider_def validateResourceTypeConfig_def answered_def Let_def)
  note t = diagnostics_thrown_except_validate [where lib = sample_externals and opt = None
      and p = "JObj []" and q = "JObj []" and config = "[]" and ident = "''w-1''" and ver = 1]
  from t [where this = ?P and ?r1.0 = "sample_schema_response ?ds"] a1 n1
  have c1: "snd (getSchema ?P) = Inl (DiagnosticError ?ds)"
    by (simp add: sample_schema_response_def)
  from t [where this = ?P and tn = "''widget''" and ?r2.0 = ?new] a2
  have c2: "snd (applyResourceChange sample_externals ?P ''widget'' (JObj []) (JObj []) None)
      = Inl (DiagnosticError ?ds)" by simp
  from t [where this = ?P and ?r3.0 = "\<lparr>diagnostics = ?ds, preparedConfig = sample_state\<rparr>"] a3
  have c3: "snd (configure sample_externals ?P []) = Inl (DiagnosticError ?ds)" by simp
  from t [where this = ?Q and ?r4.0 = "\<lparr>diagnostics = ?ds\<rparr>"] a4
  have c4: "snd (configure sample_externals ?Q []) = Inl (DiagnosticError ?ds)" by simp
  from t [where this = ?P and tn = "''widget''" and ?r5.0 = "\<lparr>diagnostics = ?ds, importedResources =
          [\<lparr>imported_typeName = Some ''widget'', imported_state = sample_state,
            imported_private = Undefined\<rparr>]\<rparr>"] a5
  have c5: "snd (importResourceState sample_externals ?P ''widget'' ''w-1'')
      = Inl (DiagnosticError ?ds)" by simp
  from t [where this = ?P and tn = "''widget''" and ?r6.0 = "\<lparr>diagnostics = ?ds,
      plannedState = sample_state, requiresReplace = [], plannedPrivate = Undefined\<rparr>"] a6
  have c6: "snd (planResourceChange sample_externals ?P ''widget'' (JObj []) (JObj []) None)
      = Inl (DiagnosticError ?ds)" by simp
  from t [where this = ?P and tn = "''widgets''" and ?r7.0 = "\<lparr>diagnostics = ?ds, state = sample_state\<rparr>"] a7
  have c7: "snd (readDataSource sample_externals ?P ''widgets'' []) = Inl (DiagnosticError ?ds)"
    by simp
  from t [where this = ?P and tn = "''widget''" and ?r8.0 = ?new] a8
  have c8: "snd (readResource sample_externals ?P ''widget'' (JObj []) None)
      = Inl (DiagnosticError ?ds)" by simp
  from t [where this = ?P and tn = "''widget''"
      and ?r9.0 = "\<lparr>diagnostics = ?ds, upgradedState = sample_state\<rparr>"] a9
  have c9: "snd (upgradeResourceState sample_externals ?P ''widget'' 1 (JObj []))
      = Inl (DiagnosticError ?ds)" by simp
  from t [where this = ?P and tn = "''widgets''" and ?r10.0 = "\<lparr>diagnostics = ?ds\<rparr>"] a10
  have c10: "snd (validateDataSourceConfig sample_externals ?P ''widgets'' (JObj []))
      = Inr \<lparr>diagnostics = ?ds\<rparr>" by simp
  from t [where this = ?P and tn = "''widget''" and ?r11.0 = "\<lparr>diagnostics = ?ds\<rparr>"] a11
  have c11: "snd (validateResourceTypeConfig sample_externals ?P ''widget'' (JObj []))
      = Inr \<lparr>diagnostics = ?ds\<rparr>" by simp
  from c4 q have c4': "configure sample_externals ?Q []
     = ([PrepareProviderConfig_Request \<lparr>msgpack = Value [CHR 0x80]\<rparr>,
         Configure_Request \<lparr>msgpack = Value [CHR 0x80]\<rparr>],
        Inl (DiagnosticError ?ds))" by simp
  from c1 c2 c3 c4' c5 c6 c7 c8 c9 c10 c11 show ?thesis by simp
qed

text \<open>
  The factory awaits \<open>rpc.getSchema({})\<close> without \<open>throwDiagnosticErrors\<close>:
  what it constructs does not depend on the diagnostics of the schema response.
\<close>

lemma createProvider_ignores_diagnostics:
  "Provider_constructor lib rpc (schema\<lparr>diagnostics := ds\<rparr>) = Provider_constructor lib rpc schema
   \<and> createProvider lib (rpc\<lparr>rpc_getSchema := \<lambda>r. Inr (schema\<lparr>diagnostics := ds\<rparr>)\<rparr>)
       = ([GetSchema_Request],
          Provider_constructor lib (rpc\<lparr>rpc_getSchema := \<lambda>r. Inr (schema\<lparr>diagnostics := ds\<rparr>)\<rparr>)
            schema)"
proof -
  have a: "Provider_constructor lib r (schema\<lparr>diagnostics := ds\<rparr>) = Provider_constructor lib r schema"
    for r
    by (auto simp: Provider_constructor_def split: option.splits sum.splits)
  show ?thesis by (simp add: createProvider_def a)
qed

text \<open>
  C6. When the response to \<open>readResource\<close> has no diagnostics and no \<open>newState\<close>
  (\<open>undefined\<close> or \<open>null\<close>), the operation resolves to \<open>undefined\<close>. In the same
  situation \<open>readDataSource\<close>, \<open>planResourceChange\<close> and \<open>applyResourceChange\<close>
  fail with an \<open>Error\<close>.
\<close>

theorem readResource_absent_state:
  "(answered (rpc_readResource (this_rpc this)) (fst (readResource lib this tn cur opt)) 0 r1
      \<and> diagnostics r1 = [] \<and> (newState r1 = Undefined \<or> newState r1 = Null) \<longrightarrow>
      snd (readResource lib this tn cur opt) = Inr JUndefined)
   \<and> (answered (rpc_readDataSource (this_rpc this)) (fst (readDataSource lib this tn config)) 0 r2
      \<and> diagnostics r2 = [] \<and> (state r2 = Undefined \<or> state r2 = Null) \<longrightarrow>
      snd (readDataSource lib this tn config) = Inl (Error ''Unable to read state from data source''))
   \<and> (answered (rpc_planResourceChange (this_rpc this))
        (fst (planResourceChange lib this tn cur new opt)) 0 r3
      \<and> diagnostics r3 = [] \<and> (plannedState r3 = Undefined \<or> plannedState r3 = Null) \<longrightarrow>
      snd (planResourceChange lib this tn cur new opt) = Inl (Error ''Unable to read planned state''))
   \<and> (answered (rpc_applyResourceChange (this_rpc this))
        (fst (applyResourceChange lib this tn cur new opt)) 0 r4
      \<and> diagnostics r4 = [] \<and> (newState r4 = Undefined \<or> newState r4 = Null) \<longrightarrow>
      snd (applyResourceChange lib this tn cur new opt) = Inl (Error ''Unable to read planned state''))"
proof (intro conjI impI; elim conjE)
  assume a: "answered (rpc_readResource (this_rpc this)) (fst (readResource lib this tn cur opt)) 0 r1"
    and d: "diagnostics r1 = []" and n: "newState r1 = Undefined \<or> newState r1 = Null"
  from a obtain s where s: "obj_get (this_resourceStateSchemas this) tn = Some s"
    by (auto simp: readResource_def answered_def split: option.splits)
  with a have r: "rpc_readResource (this_rpc this)
      (ReadResource_Request tn (toDynamic lib cur) (encodePrivate lib opt)) = Inr r1"
    by (simp add: readResource_def answered_def Let_def)
  from n s r d show "snd (readResource lib this tn cur opt) = Inr JUndefined"
    by (auto simp: readResource_def Let_def coalesce_def nullish_def thenThrowDiagnosticErrors_def throwDiagnosticErrors_def)
next
  assume a: "answered (rpc_readDataSource (this_rpc this)) (fst (readDataSource lib this tn config)) 0 r2"
    and d: "diagnostics r2 = []" and n: "state r2 = Undefined \<or> state r2 = Null"
  from a obtain s where s: "obj_get (this_dataSourceSchemas this) tn = Some s"
    and v: "validateOrThrow lib s (JObj config) = None"
    by (auto simp: readDataSource_def answered_def split: option.splits)
  with a have r: "rpc_readDataSource (this_rpc this)
      (ReadDataSource_Request tn (toDynamic lib (JObj (optionalsToNulls config s)))) = Inr r2"
    by (simp add: readDataSource_def answered_def Let_def)
  from n s v r d
  show "snd (readDataSource lib this tn config) = Inl (Error ''Unable to read state from data source'')"
    by (auto simp: readDataSource_def Let_def thenThrowDiagnosticErrors_def throwDiagnosticErrors_def)
next
  assume a: "answered (rpc_planResourceChange (this_rpc this))
        (fst (planResourceChange lib this tn cur new opt)) 0 r3"
    and d: "diagnostics r3 = []" and n: "plannedState r3 = Undefined \<or> plannedState r3 = Null"
  from a obtain s where s: "obj_get (this_resourceStateSchemas this) tn = Some s"
    by (auto simp: planResourceChange_def answered_def split: option.splits)
  with a have r: "rpc_planResourceChange (this_rpc this)
      (PlanResourceChange_Request tn (toDynamic lib cur) (toDynamic lib new) (encodePrivate lib opt))
        = Inr r3"
    by (simp add: planResourceChange_def answered_def Let_def)
  from n s r d
  show "snd (planResourceChange lib this tn cur new opt) = Inl (Error ''Unable to read planned state'')"
    by (auto simp: planResourceChange_def Let_def thenThrowDiagnosticErrors_def throwDiagnosticErrors_def)
next
  assume a: "answered (rpc_applyResourceChange (this_rpc this))
        (fst (applyResourceChange lib this tn cur new opt)) 0 r4"
    and d: "diagnostics r4 = []" and n: "newState r4 = Undefined \<or> newState r4 = Null"
  from a have r: "rpc_applyResourceChange (this_rpc this)
      (ApplyResourceChange_Request tn (toDynamic lib cur) (toDynamic lib new) (encodePrivate lib opt))
        = Inr r4"
    by (simp add: applyResourceChange_def answered_def Let_def)
  from n r d
  show "snd (applyResourceChange lib this tn cur new opt) = Inl (Error ''Unable to read planned state'')"
    by (auto simp: applyResourceChange_def Let_def thenThrowDiagnosticErrors_def throwDiagnosticErrors_def)
qed

theorem readResource_absent_state_witness:
  "snd (readResource sample_externals (sample_provider (sample_rpc [] Undefined Undefined))
        ''widget'' (JObj []) None) = Inr JUndefined
   \<and> snd (readDataSource sample_externals (sample_provider (sample_rpc [] Undefined Undefined))
        ''widgets'' []) = Inl (Error ''Unable to read state from data source'')
   \<and> snd (planResourceChange sample_externals (sample_provider (sample_rpc [] Undefined Undefined))
        ''widget'' (JObj []) (JObj []) None) = Inl (Error ''Unable to read planned state'')
   \<and> snd (applyResourceChange sample_externals (sample_provider (sample_rpc [] Undefined Undefined))
        ''widget'' (JObj []) (JObj []) None) = Inl (Error ''Unable to read planned state'')"
proof -
  let ?rpc = "sample_rpc [] Undefined Undefined"
  let ?P = "sample_provider ?rpc"
  have a1: "answered (rpc_readResource (this_rpc ?P))
      (fst (readResource sample_externals ?P ''widget'' (JObj []) None)) 0
      \<lparr>diagnostics = [], newState = Undefined, private' = Undefined\<rparr>"
    by (simp add: sample_defs eval_defs answered_def)
  have a2: "answered (rpc_readDataSource (this_rpc ?P))
      (fst (readDataSource sample_externals ?P ''widgets'' [])) 0
      \<lparr>diagnostics = [], state = Undefined\<rparr>"
    by (simp add: sample_defs eval_defs answered_def)
  have a3: "answered (rpc_planResourceChange (this_rpc ?P))
      (fst (planResourceChange sample_externals ?P ''widget'' (JObj []) (JObj []) None)) 0
      \<lparr>diagnostics = [], plannedState = Undefined, requiresReplace = [], plannedPrivate = Undefined\<rparr>"
    by (simp add: sample_defs eval_defs answered_def)
  have a4: "answered (rpc_applyResourceChange (this_rpc ?P))
      (fst (applyResourceChange sample_externals ?P ''widget'' (JObj []) (JObj []) None)) 0
      \<lparr>diagnostics = [], newState = Undefined, private' = Undefined\<rparr>"
    by (simp add: sample_defs eval_defs answered_def)
  from readResource_absent_state [where this = ?P and lib = sample_externals
      and tn = "''widget''" and cur = "JObj []" and new = "JObj []" and opt = None
      and ?r1.0 = "\<lparr>diagnostics = [], newState = Undefined, private' = Undefined\<rparr>"
      and ?r3.0 = "\<lparr>diagnostics = [], plannedState = Undefined, requiresReplace = [],
                    plannedPrivate = Undefined\<rparr>"
      and ?r4.0 = "\<lparr>diagnostics = [], newState = Undefined, private' = Undefined\<rparr>"]
    readResource_absent_state [where this = ?P and lib = sample_externals
      and tn = "''widgets''" and config = "[]"
      and ?r2.0 = "\<lparr>diagnostics = [], state = Undefined\<rparr>"]
    a1 a2 a3 a4
  show ?thesis by simp
qed

text \<open>
  C2. With a private mapping among its options, \<open>planResourceChange\<close> puts on the
  wire a request whose \<open>priorPrivate\<close> is \<open>encoder.encode(JSON.stringify(private))\<close>.
  It then decodes the response's \<open>plannedPrivate\<close> with \<open>JSON.parse\<close> before the
  \<open>?? {}\<close> default applies, so it fails with the parser's error whenever the
  decoded text does not parse; the empty text of an empty or missing payload does not.
\<close>

theorem planResourceChange_private_data:
  assumes a: "answered (rpc_planResourceChange (this_rpc this))
        (fst (planResourceChange lib this tn prior proposed (Some priv))) 0 r"
    and d: "diagnostics r = []"
    and st: "fromDynamic lib (plannedState r) = Inr planned" "truthy planned"
    and dec: "decoder_decode lib (plannedPrivate r) = Inr txt"
    and bad: "JSON_parse lib txt = Inl e"
  shows "planResourceChange lib this tn prior proposed (Some priv) =
     ([PlanResourceChange_Request tn (toDynamic lib prior) (toDynamic lib proposed)
         (Some (encoder_encode lib (JSON_stringify lib (JObj priv))))],
      Inl e)"
proof -
  from a obtain s where s: "obj_get (this_resourceStateSchemas this) tn = Some s"
    by (auto simp: planResourceChange_def answered_def split: option.splits)
  with a have r: "rpc_planResourceChange (this_rpc this)
      (PlanResourceChange_Request tn (toDynamic lib prior) (toDynamic lib proposed)
         (encodePrivate lib (Some priv))) = Inr r"
    by (simp add: planResourceChange_def answered_def Let_def)
  from s r d st dec bad show ?thesis
    by (simp add: planResourceChange_def Let_def parsePrivate_def encodePrivate_def
        thenThrowDiagnosticErrors_def throwDiagnosticErrors_def)
qed

theorem planResourceChange_private_data_witness:
  "planResourceChange sample_externals (sample_provider (sample_rpc [] sample_state (Value [])))
      ''widget'' (JObj []) (JObj []) (Some [(''tag'', JStr ''x'')])
   = ([PlanResourceChange_Request ''widget'' \<lparr>msgpack = Value [CHR 0x80]\<rparr>
         \<lparr>msgpack = Value [CHR 0x80]\<rparr>
         (Some (''{'' @ quoted ''tag'' @ '':'' @ quoted ''x'' @ ''}''))],
      Inl (SyntaxError []))"
proof -
  let ?P = "sample_provider (sample_rpc [] sample_state (Value []))"
  let ?r = "\<lparr>diagnostics = [], plannedState = sample_state, requiresReplace = [],
             plannedPrivate = Value []\<rparr>"
  have a: "answered (rpc_planResourceChange (this_rpc ?P))
      (fst (planResourceChange sample_externals ?P ''widget'' (JObj []) (JObj [])
         (Some [(''tag'', JStr ''x'')]))) 0 ?r"
    by (simp add: sample_defs eval_defs answered_def)
  have d: "diagnostics ?r = []" by simp
  have s: "fromDynamic sample_externals (plannedState ?r) = Inr (JObj [])"
    by (simp add: sample_defs)
  have t: "truthy (JObj [])" by simp
  have dec: "decoder_decode sample_externals (plannedPrivate ?r) = Inr []"
    by (simp add: sample_externals_def)
  have bad: "JSON_parse sample_externals [] = Inl (SyntaxError [])"
    by (simp add: sample_externals_def sample_parse_def quoted_def)
  from planResourceChange_private_data [OF a d s t dec bad] show ?thesis
    by (simp add: sample_defs toDynamic_def)
qed


end
